theory Spec2Isabelle
  imports Main "HOL-Library.Word"
begin

section \<open>Illumina read identifiers and quality binning (package illumina)\<close>

text \<open>
  A shallow embedding of \<^verbatim>\<open>illumina.go\<close> (the identifier parser \<^verbatim>\<open>Parse\<close>)
  and of the quality compressor (\<^verbatim>\<open>BinCompress\<close>). Go strings are byte
  sequences, modelled as \<open>string\<close>; Go's \<^verbatim>\<open>int\<close> is taken as the 64-bit
  integer of the common platforms and modelled as \<open>int\<close> (the parser never computes
  with it: every value comes out of \<^verbatim>\<open>strconv.Atoi\<close>, already range-checked);
  \<^verbatim>\<open>int8\<close> and \<^verbatim>\<open>byte\<close> are \<open>8 word\<close>, read with \<open>sint\<close> and
  \<open>unat\<close>.
\<close>

subsection \<open>Data model\<close>

type_synonym int8 = "8 word"

datatype Type = Undefined | PreCasava | Casava

record Coordinate =
  X :: int
  Y :: int

record Multiplex =
  Index :: int8
  Tag :: string

record Metadata =
  Type :: Type
  Instrument :: string
  Run :: int
  FlowCell :: string
  Lane :: int8
  Tile :: int
  Coordinate :: Coordinate
  Mate :: int8
  BadRead :: bool
  ControlBits :: int
  Multiplex :: Multiplex

text \<open>The zero value \<^verbatim>\<open>Metadata{}\<close>.\<close>

definition Metadata_zero :: Metadata where
  "Metadata_zero =
     \<lparr>Type = Undefined, Instrument = [], Run = 0, FlowCell = [], Lane = 0, Tile = 0,
      Coordinate = \<lparr>X = 0, Y = 0\<rparr>, Mate = 0, BadRead = False, ControlBits = 0,
      Multiplex = \<lparr>Index = 0, Tag = []\<rparr>\<rparr>"

text \<open>The two methods of \<^verbatim>\<open>Interface\<close>, as the values they return.\<close>

record Interface =
  Name :: string
  Description :: string

text \<open>
  Error values. \<open>ErrBadIdentifer\<close> and \<open>ErrBadTag\<close> are the package's two
  sentinel values; \<open>NumError fn num err\<close> is the \<^verbatim>\<open>*strconv.NumError\<close> that
  \<^verbatim>\<open>strconv.Atoi\<close> returns; \<open>TagErrorf e\<close> is the fresh value built by
  \<^verbatim>\<open>fmt.Errorf("illumina: illegal multiplex tag: %s", e)\<close>.
\<close>

datatype NumErr = ErrSyntax | ErrRange

datatype error =
    ErrBadIdentifer
  | ErrBadTag
  | NumError string string NumErr
  | TagErrorf error

subsection \<open>Library functions the parser calls\<close>

text \<open>
  \<^verbatim>\<open>strconv.Atoi\<close> (base 10, 64-bit): an optional sign, then decimal digits. The
  digit loop is that of \<^verbatim>\<open>ParseUint\<close>: a character that is no digit is a syntax
  error, an overflow of the unsigned 64-bit accumulator is a range error reported at once.
  The value returned beside an error is 0 for a syntax error and the nearest bound for a
  range error.
\<close>

definition maxUint64 :: int where
  "maxUint64 = 2 ^ 64 - 1"

fun ParseUint_digits :: "int \<Rightarrow> string \<Rightarrow> int \<times> NumErr option" where
  "ParseUint_digits n [] = (n, None)"
| "ParseUint_digits n (c # cs) =
     (if of_char c < (48::int) \<or> (57::int) < of_char c then (0, Some ErrSyntax)
      else if maxUint64 div 10 + 1 \<le> n then (maxUint64, Some ErrRange)
      else if maxUint64 < n * 10 + (of_char c - 48) then (maxUint64, Some ErrRange)
      else ParseUint_digits (n * 10 + (of_char c - 48)) cs)"

definition Atoi :: "string \<Rightarrow> int \<times> error option" where
  "Atoi s =
     (if s = [] then (0, Some (NumError ''Atoi'' s ErrSyntax))
      else
        let neg = (hd s = CHR ''-'');
            ds = (if hd s = CHR ''+'' \<or> hd s = CHR ''-'' then tl s else s)
        in if ds = [] then (0, Some (NumError ''Atoi'' s ErrSyntax))
           else (case ParseUint_digits 0 ds of
                   (un, Some ErrSyntax) \<Rightarrow> (0, Some (NumError ''Atoi'' s ErrSyntax))
                 | (un, _) \<Rightarrow>
                     if \<not> neg \<and> 2 ^ 63 \<le> un
                       then (2 ^ 63 - 1, Some (NumError ''Atoi'' s ErrRange))
                     else if neg \<and> 2 ^ 63 < un
                       then (- (2 ^ 63), Some (NumError ''Atoi'' s ErrRange))
                     else (if neg then - un else un, None)))"

text \<open>
  \<^verbatim>\<open>strings.FieldsFunc\<close>: the maximal runs of characters that are not separators,
  in order; no field is empty. \<open>cur\<close> is the field being read (reversed), \<open>None\<close>
  when no field is open. The separators of this package are ASCII, and no byte of a
  multi-byte or invalid UTF-8 sequence decodes to an ASCII rune, so splitting the bytes
  is splitting the runes.
\<close>

fun FieldsFunc_from :: "(char \<Rightarrow> bool) \<Rightarrow> string option \<Rightarrow> string \<Rightarrow> string list" where
  "FieldsFunc_from f None [] = []"
| "FieldsFunc_from f (Some cur) [] = [rev cur]"
| "FieldsFunc_from f None (c # cs) =
     (if f c then FieldsFunc_from f None cs else FieldsFunc_from f (Some [c]) cs)"
| "FieldsFunc_from f (Some cur) (c # cs) =
     (if f c then rev cur # FieldsFunc_from f None cs
      else FieldsFunc_from f (Some (c # cur)) cs)"

definition FieldsFunc :: "string \<Rightarrow> (char \<Rightarrow> bool) \<Rightarrow> string list" where
  "FieldsFunc s f = FieldsFunc_from f None s"

text \<open>
  The runes of a string, as \<^verbatim>\<open>for _, r := range s\<close> yields them: UTF-8 decoding,
  where a byte that starts no well-formed sequence yields \<^verbatim>\<open>utf8.RuneError\<close>
  (U+FFFD) and is skipped alone.
\<close>

definition RuneError :: nat where
  "RuneError = 0xFFFD"

definition cont_byte :: "char \<Rightarrow> bool" where
  "cont_byte c = (0x80 \<le> (of_char c :: nat) \<and> (of_char c :: nat) \<le> 0xBF)"

definition second_byte_ok :: "nat \<Rightarrow> char \<Rightarrow> bool" where
  "second_byte_ok b0 c =
     (let lo = (if b0 = 0xE0 then 0xA0 else if b0 = 0xF0 then 0x90 else 0x80);
          hi = (if b0 = 0xED then 0x9F else if b0 = 0xF4 then 0x8F else 0xBF)
      in lo \<le> (of_char c :: nat) \<and> (of_char c :: nat) \<le> hi)"

fun runes :: "string \<Rightarrow> nat list" where
  "runes [] = []"
| "runes (c # s) =
     (let b0 = (of_char c :: nat) in
      if b0 < 0x80 then b0 # runes s
      else if 0xC2 \<le> b0 \<and> b0 \<le> 0xDF then
        (case s of
           c1 # s1 \<Rightarrow>
             if cont_byte c1 then (b0 mod 32 * 64 + of_char c1 mod 64) # runes s1
             else RuneError # runes s
         | _ \<Rightarrow> RuneError # runes s)
      else if 0xE0 \<le> b0 \<and> b0 \<le> 0xEF then
        (case s of
           c1 # c2 # s2 \<Rightarrow>
             if second_byte_ok b0 c1 \<and> cont_byte c2
               then (b0 mod 16 * 4096 + of_char c1 mod 64 * 64 + of_char c2 mod 64) # runes s2
             else RuneError # runes s
         | _ \<Rightarrow> RuneError # runes s)
      else if 0xF0 \<le> b0 \<and> b0 \<le> 0xF4 then
        (case s of
           c1 # c2 # c3 # s3 \<Rightarrow>
             if second_byte_ok b0 c1 \<and> cont_byte c2 \<and> cont_byte c3
               then (b0 mod 8 * 262144 + of_char c1 mod 64 * 4096 + of_char c2 mod 64 * 64
                     + of_char c3 mod 64) # runes s3
             else RuneError # runes s
         | _ \<Rightarrow> RuneError # runes s)
      else RuneError # runes s)"

text \<open>
  \<^verbatim>\<open>alphabet.Letter\<close> is a byte; the conversion \<^verbatim>\<open>alphabet.Letter(r)\<close> keeps the
  low eight bits of the rune.
\<close>

type_synonym Letter = "8 word"

definition Letter :: "nat \<Rightarrow> Letter" where
  "Letter r = of_nat r"

text \<open>
  \<^verbatim>\<open>alphabet.DNA.IsValid\<close> belongs to the biogo alphabet package, whose source is
  not part of this package: the parser is modelled for any validity predicate \<open>valid\<close>
  on letters, and every general property below holds for all of them.
\<close>

text \<open>
  Modelled from the spec: \<^verbatim>\<open>alphabet.DNA.IsValid\<close>, the membership test of the
  four-letter nucleotide alphabet A, C, G, T (taken in both cases; the spec leaves the
  case to the alphabet). It is only used to evaluate the parser on concrete identifiers,
  whose tags are upper-case bases or contain a letter outside the alphabet in either case.
\<close>

definition DNA_IsValid :: "Letter \<Rightarrow> bool" where
  "DNA_IsValid l = (l \<in> {0x41, 0x43, 0x47, 0x54, 0x61, 0x63, 0x67, 0x74})"

subsection \<open>The parser\<close>

definition mustAtoi :: "string \<Rightarrow> error + int" where
  "mustAtoi s =
     (if length s = 0 then Inr (- 1)
      else (case Atoi s of
              (i, Some err) \<Rightarrow> Inl err
            | (i, None) \<Rightarrow> Inr i))"

definition atob :: "string \<Rightarrow> int8 \<times> error option" where
  "atob s =
     (if length s = 0 then (- 1, None)
      else (case Atoi s of (i, err) \<Rightarrow> (word_of_int i, err)))"

fun tagOk_runes :: "(Letter \<Rightarrow> bool) \<Rightarrow> nat list \<Rightarrow> bool" where
  "tagOk_runes valid [] = True"
| "tagOk_runes valid (r # rs) = (if \<not> valid (Letter r) then False else tagOk_runes valid rs)"

definition tagOk :: "(Letter \<Rightarrow> bool) \<Rightarrow> string \<Rightarrow> bool" where
  "tagOk valid tag = tagOk_runes valid (runes tag)"

definition preCasavaSep :: "char \<Rightarrow> bool" where
  "preCasavaSep r = (r = CHR '':'' \<or> r = CHR ''#'' \<or> r = CHR ''/'')"

text \<open>
  The deferred function of \<open>preCasava\<close> and \<open>casava\<close>: a panic with an error value
  \<open>e\<close> is recovered, the named result \<open>err\<close> becomes \<open>e\<close> and only the
  \<open>Type\<close> field of the named result \<open>m\<close> is reset.
\<close>

definition recovered :: "Metadata \<Rightarrow> error \<Rightarrow> Metadata \<times> error option" where
  "recovered m e = (m\<lparr>Type := Undefined\<rparr>, Some e)"

text \<open>
  \<open>preCasava\<close>. A panic inside the composite literal leaves \<open>m\<close> at its zero value
  (the assignment has not happened); a panic after it finds \<open>m\<close> as built so far.
\<close>

definition preCasava :: "(Letter \<Rightarrow> bool) \<Rightarrow> string \<Rightarrow> Metadata \<times> error option" where
  "preCasava valid name =
     (let f = FieldsFunc name preCasavaSep in
      if length f < 6 then (Metadata_zero, Some ErrBadIdentifer)
      else
       (case mustAtoi (f ! 1) of Inl e \<Rightarrow> recovered Metadata_zero e | Inr lane \<Rightarrow>
       (case mustAtoi (f ! 2) of Inl e \<Rightarrow> recovered Metadata_zero e | Inr tile \<Rightarrow>
       (case mustAtoi (f ! 3) of Inl e \<Rightarrow> recovered Metadata_zero e | Inr x \<Rightarrow>
       (case mustAtoi (f ! 4) of Inl e \<Rightarrow> recovered Metadata_zero e | Inr y \<Rightarrow>
        (let m = Metadata_zero
                  \<lparr>Type := PreCasava, Instrument := f ! 0, Run := - 1, Lane := word_of_int lane,
                   Tile := tile, Coordinate := \<lparr>X = x, Y = y\<rparr>\<rparr>;
             (idx, err) = atob (f ! 5);
             m = m\<lparr>Multiplex := (Multiplex m)\<lparr>Index := idx\<rparr>\<rparr>
         in
           (case (case err of
                    None \<Rightarrow> Inr m
                  | Some e \<Rightarrow>
                      (if tagOk valid (f ! 5)
                         then Inr (m\<lparr>Multiplex := \<lparr>Index = - 1, Tag = f ! 5\<rparr>\<rparr>)
                       else Inl (TagErrorf e))) of
              Inl e \<Rightarrow> recovered m e
            | Inr m \<Rightarrow>
                (if length f = 7 then
                   (case mustAtoi (f ! 6) of
                      Inl e \<Rightarrow> recovered m e
                    | Inr mate \<Rightarrow> (m\<lparr>Mate := word_of_int mate\<rparr>, None))
                 else (m, None)))))))))"

definition casavaSep :: "char \<Rightarrow> bool" where
  "casavaSep r = (r = CHR '':'')"

definition casava :: "(Letter \<Rightarrow> bool) \<Rightarrow> string \<Rightarrow> string \<Rightarrow> Metadata \<times> error option" where
  "casava valid name desc =
     (let nf = FieldsFunc name casavaSep;
          df = FieldsFunc desc casavaSep
      in
      if \<not> (length nf = 7 \<and> (length df = 4 \<or> desc = [])) then (Metadata_zero, Some ErrBadIdentifer)
      else if length df = 4 \<and> \<not> tagOk valid (df ! 3) then (Metadata_zero, Some ErrBadTag)
      else
       (case mustAtoi (nf ! 1) of Inl e \<Rightarrow> recovered Metadata_zero e | Inr run \<Rightarrow>
       (case mustAtoi (nf ! 3) of Inl e \<Rightarrow> recovered Metadata_zero e | Inr lane \<Rightarrow>
       (case mustAtoi (nf ! 4) of Inl e \<Rightarrow> recovered Metadata_zero e | Inr tile \<Rightarrow>
       (case mustAtoi (nf ! 5) of Inl e \<Rightarrow> recovered Metadata_zero e | Inr x \<Rightarrow>
       (case mustAtoi (nf ! 6) of Inl e \<Rightarrow> recovered Metadata_zero e | Inr y \<Rightarrow>
        (let m = Metadata_zero
                  \<lparr>Type := Casava, Instrument := nf ! 0, Run := run, FlowCell := nf ! 2,
                   Lane := word_of_int lane, Tile := tile, Coordinate := \<lparr>X = x, Y = y\<rparr>,
                   ControlBits := - 1, Multiplex := \<lparr>Index = - 1, Tag = []\<rparr>\<rparr>
         in
           if desc \<noteq> [] then
             (case mustAtoi (df ! 0) of Inl e \<Rightarrow> recovered m e | Inr mate \<Rightarrow>
               (let m = m\<lparr>Mate := word_of_int mate\<rparr>;
                    m = m\<lparr>BadRead := (df ! 1 = ''Y'' \<or> df ! 1 = ''y'')\<rparr>
                in
                 (case mustAtoi (df ! 2) of Inl e \<Rightarrow> recovered m e | Inr bits \<Rightarrow>
                   (let m = m\<lparr>ControlBits := bits\<rparr>;
                        m = m\<lparr>Multiplex := (Multiplex m)\<lparr>Tag := df ! 3\<rparr>\<rparr>
                    in (m, None)))))
           else (m, None))))))))"

definition Parse :: "(Letter \<Rightarrow> bool) \<Rightarrow> Interface \<Rightarrow> Metadata \<times> error option" where
  "Parse valid r =
     (let name = Name r in
      if CHR ''#'' \<in> set name then preCasava valid name
      else let desc = Description r in casava valid name desc)"

subsection \<open>The quality compressor\<close>

text \<open>
  \<^verbatim>\<open>alphabet.Qphred\<close> is a byte. A \<^verbatim>\<open>Scheme\<close> is a pointer to an array of 256
  of them, indexed by a \<open>Qphred\<close>: the array is a total function on bytes, and the
  \<^verbatim>\<open>nil\<close> pointer is \<open>None\<close>.
\<close>

type_synonym Qphred = "8 word"

type_synonym Scheme_array = "Qphred \<Rightarrow> Qphred"

type_synonym Scheme = "Scheme_array option"

record QLetter =
  L :: Letter
  Q :: Qphred

text \<open>The \<^verbatim>\<open>switch\<close> in the loop of \<open>defaultCompression\<close>; \<open>q\<close> starts at zero.\<close>

definition switch_q :: "nat \<Rightarrow> Qphred" where
  "switch_q i =
     (if 2 \<le> i \<and> i < 10 then 6
      else if 10 \<le> i \<and> i < 20 then 15
      else if 20 \<le> i \<and> i < 25 then 22
      else if 25 \<le> i \<and> i < 30 then 27
      else if 30 \<le> i \<and> i < 35 then 33
      else if 35 \<le> i \<and> i < 40 then 37
      else if i \<ge> 40 then 40
      else 0)"

text \<open>The array starts zeroed; the loop fills the entries 2 to 255.\<close>

definition defaultCompression :: Scheme_array where
  "defaultCompression = fold (\<lambda>i cs. cs(of_nat i := switch_q i)) [2..<256] (\<lambda>_. 0)"

definition DefaultCompression :: Scheme_array where
  "DefaultCompression = defaultCompression"

text \<open>
  The scorer. \<^verbatim>\<open>seq.Scorer\<close> is an interface of the biogo sequence package; its
  methods are taken as parameters over an opaque scorer state \<open>'s\<close>, with \<open>'e\<close> for
  \<^verbatim>\<open>float64\<close> and \<open>'x\<close> for the errors of \<^verbatim>\<open>SetE\<close>. A scorer that is a
  \<^verbatim>\<open>seq.Slicer\<close> whose \<^verbatim>\<open>Slice()\<close> is an \<^verbatim>\<open>alphabet.QLetters\<close> or a
  \<^verbatim>\<open>quality.Qphreds\<close> is given by that slice, which shares its elements with the
  scorer: what the fast path writes is what the scorer holds afterwards.
\<close>

record ('s, 'e, 'x) Scorer_methods =
  Start :: "'s \<Rightarrow> int"
  End :: "'s \<Rightarrow> int"
  EAt :: "'s \<Rightarrow> int \<Rightarrow> 'e"
  SetE :: "'s \<Rightarrow> int \<Rightarrow> 'e \<Rightarrow> 's \<times> 'x option"

datatype 's Scorer =
    Slicer_QLetters "QLetter list"
  | Slicer_Qphreds "Qphred list"
  | Slicer_other 's
  | Scorer_only 's

text \<open>
  \<open>slowCompression\<close>: \<open>Ephred\<close> and \<open>ProbE\<close> are the conversions of the alphabet
  package. The loop reads \<^verbatim>\<open>s.End()\<close> anew at every step, on a scorer whose
  \<^verbatim>\<open>SetE\<close> is arbitrary, so it need not end: not returning is \<open>None\<close>.
\<close>

partial_function (option) slowCompression_from ::
  "('s, 'e, 'x) Scorer_methods \<Rightarrow> ('e \<Rightarrow> Qphred) \<Rightarrow> (Qphred \<Rightarrow> 'e) \<Rightarrow> Scheme_array
     \<Rightarrow> int \<Rightarrow> 's \<Rightarrow> ('s \<times> 'x option) option" where
  "slowCompression_from M Ephred ProbE c i s =
     (if i < End M s then
        (case SetE M s i (ProbE (c (Ephred (EAt M s i)))) of
           (s', Some err) \<Rightarrow> Some (s', Some err)
         | (s', None) \<Rightarrow> slowCompression_from M Ephred ProbE c (i + 1) s')
      else Some (s, None))"

definition slowCompression ::
  "('s, 'e, 'x) Scorer_methods \<Rightarrow> ('e \<Rightarrow> Qphred) \<Rightarrow> (Qphred \<Rightarrow> 'e) \<Rightarrow> 's \<Rightarrow> Scheme_array
     \<Rightarrow> ('s \<times> 'x option) option" where
  "slowCompression M Ephred ProbE s c = slowCompression_from M Ephred ProbE c (Start M s) s"

text \<open>The two loops of the fast path, by index over the slice.\<close>

definition compress_QLetters :: "Scheme_array \<Rightarrow> QLetter list \<Rightarrow> QLetter list" where
  "compress_QLetters c d = fold (\<lambda>i d. d[i := (d ! i)\<lparr>Q := c (Q (d ! i))\<rparr>]) [0..<length d] d"

definition compress_Qphreds :: "Scheme_array \<Rightarrow> Qphred list \<Rightarrow> Qphred list" where
  "compress_Qphreds c d = fold (\<lambda>i d. d[i := c (d ! i)]) [0..<length d] d"

definition BinCompress ::
  "('s, 'e, 'x) Scorer_methods \<Rightarrow> ('e \<Rightarrow> Qphred) \<Rightarrow> (Qphred \<Rightarrow> 'e) \<Rightarrow> 's Scorer \<Rightarrow> Scheme
     \<Rightarrow> ('s Scorer \<times> 'x option) option" where
  "BinCompress M Ephred ProbE s c =
     (let c = (case c of None \<Rightarrow> DefaultCompression | Some a \<Rightarrow> a) in
      case s of
        Slicer_QLetters d \<Rightarrow> Some (Slicer_QLetters (compress_QLetters c d), None)
      | Slicer_Qphreds d \<Rightarrow> Some (Slicer_Qphreds (compress_Qphreds c d), None)
      | Slicer_other st \<Rightarrow>
          map_option (\<lambda>(st', err). (Slicer_other st', err)) (slowCompression M Ephred ProbE st c)
      | Scorer_only st \<Rightarrow>
          map_option (\<lambda>(st', err). (Scorer_only st', err)) (slowCompression M Ephred ProbE st c))"

subsection \<open>Notions used to state the properties\<close>



text \<open>
  Inputs for evaluating \<open>BinCompress\<close>: a scorer interface that is never called on
  the fast path, and a caller-supplied table that adds one to every quality.
\<close>

definition no_methods :: "(unit, unit, unit) Scorer_methods" where
  "no_methods = \<lparr>Start = \<lambda>_. 0, End = \<lambda>_. 0, EAt = \<lambda>_ _. (), SetE = \<lambda>s _ _. (s, None)\<rparr>"

definition no_Ephred :: "unit \<Rightarrow> Qphred" where
  "no_Ephred e = 0"

definition no_ProbE :: "Qphred \<Rightarrow> unit" where
  "no_ProbE q = ()"


section \<open>Properties\<close>

subsection \<open>Auxiliary facts\<close>

text \<open>No field of \<open>FieldsFunc\<close> is empty, so the parser's empty-string cases never apply to a field.\<close>

lemma FieldsFunc_from_nonempty:
  "(\<And>cur. acc = Some cur \<Longrightarrow> cur \<noteq> []) \<Longrightarrow> [] \<notin> set (FieldsFunc_from f acc s)"
  by (induction f acc s rule: FieldsFunc_from.induct) auto

lemma FieldsFunc_nonempty: "[] \<notin> set (FieldsFunc s f)"
  unfolding FieldsFunc_def by (rule FieldsFunc_from_nonempty) simp

lemma FieldsFunc_nth_nonempty: "i < length (FieldsFunc s f) \<Longrightarrow> FieldsFunc s f ! i \<noteq> []"
  using FieldsFunc_nonempty [of s f] by (metis nth_mem)

lemma mustAtoi_nonempty:
  "s \<noteq> [] \<Longrightarrow> mustAtoi s = (case snd (Atoi s) of Some e \<Rightarrow> Inl e | None \<Rightarrow> Inr (fst (Atoi s)))"
  by (simp add: mustAtoi_def split: prod.splits option.splits)

lemma atob_nonempty: "s \<noteq> [] \<Longrightarrow> atob s = (word_of_int (fst (Atoi s)), snd (Atoi s))"
  by (simp add: atob_def split: prod.splits)

lemma sint_int8: "- 128 \<le> i \<Longrightarrow> i \<le> 127 \<Longrightarrow> sint (word_of_int i :: 8 word) = i"
  by (simp add: sint_sbintrunc' signed_take_bit_int_eq_self)

text \<open>The errors of \<open>Atoi\<close> are \<open>NumError\<close> values, never one of the package's sentinels.\<close>

lemma Atoi_error: "snd (Atoi s) = Some e \<Longrightarrow> e = NumError ''Atoi'' s ErrSyntax \<or> e = NumError ''Atoi'' s ErrRange"
  by (auto simp: Atoi_def Let_def split: if_splits prod.splits option.splits NumErr.splits)

lemma mustAtoi_Inl: "mustAtoi s = Inl e \<Longrightarrow> e \<noteq> ErrBadIdentifer \<and> e \<noteq> ErrBadTag"
  using Atoi_error [of s e]
  by (auto simp: mustAtoi_def split: if_splits prod.splits option.splits)

lemma recovered_zero: "recovered Metadata_zero e = (Metadata_zero, Some e)"
  by (simp add: recovered_def Metadata_zero_def)

lemma recovered_Type: "Type (fst (recovered m e)) = Undefined" "snd (recovered m e) = Some e"
  by (simp_all add: recovered_def)

text \<open>The two parsers, one at a time.\<close>

lemma preCasava_ok:
  assumes "preCasava valid name = (m, None)"
  shows "Type m = PreCasava \<and> Run m = - 1 \<and> ControlBits m = 0 \<and> \<not> BadRead m"
  using assms
  by (auto simp: preCasava_def recovered_def Metadata_zero_def Let_def
      split: if_splits sum.splits prod.splits option.splits)

lemma preCasava_error:
  assumes "snd (preCasava valid name) \<noteq> None"
  shows "Type (fst (preCasava valid name)) = Undefined \<and>
         (snd (preCasava valid name) = Some ErrBadIdentifer \<or> snd (preCasava valid name) = Some ErrBadTag
            \<longrightarrow> fst (preCasava valid name) = Metadata_zero)"
  using assms
  by (auto simp: preCasava_def recovered_zero recovered_Type Let_def Metadata_zero_def [THEN arg_cong, of Type]
      split: if_splits sum.splits prod.splits option.splits dest: mustAtoi_Inl)

lemma casava_error:
  assumes "snd (casava valid name desc) \<noteq> None"
  shows "Type (fst (casava valid name desc)) = Undefined \<and>
         (snd (casava valid name desc) = Some ErrBadIdentifer \<or> snd (casava valid name desc) = Some ErrBadTag
            \<longrightarrow> fst (casava valid name desc) = Metadata_zero)"
  using assms
  by (auto simp: casava_def recovered_zero recovered_Type Let_def Metadata_zero_def [THEN arg_cong, of Type]
      split: if_splits sum.splits prod.splits option.splits dest: mustAtoi_Inl)




text \<open>
  The sign of an \<^verbatim>\<open>int8\<close> conversion, and the Multiplex field of an accepted
  identifier under each convention.
\<close>

lemma even_div_128: "(\<not> odd ((i::int) div 128)) = (i mod 256 < 128)"
proof -
  have "i mod (128 * 2) = 128 * (i div 128 mod 2) + i mod 128"
    by (rule zmod_zmult2_eq) simp
  then have e: "i mod 256 = 128 * (i div 128 mod 2) + i mod 128" by simp
  have b: "0 \<le> i mod 128" "i mod 128 < 128" by simp_all
  show ?thesis
  proof (cases "even (i div 128)")
    case True
    then have "i div 128 mod 2 = 0" by (simp add: even_iff_mod_2_eq_zero)
    then show ?thesis using True e b by simp
  next
    case False
    then have "i div 128 mod 2 = 1" by (simp add: odd_iff_mod_2_eq_one)
    then show ?thesis using False e b by simp
  qed
qed

lemma sint_int8_nonneg: "(0 \<le> sint (word_of_int i :: 8 word)) = (i mod 256 < 128)"
proof -
  have "(0 \<le> sint (word_of_int i :: 8 word)) = (\<not> bit i 7)"
    by (simp add: sint_sbintrunc' signed_take_bit_nonnegative_iff)
  also have "\<dots> = (\<not> odd (i div 128))" by (simp add: bit_iff_odd)
  also have "\<dots> = (i mod 256 < 128)" by (rule even_div_128)
  finally show ?thesis .
qed

lemma preCasava_Multiplex:
  assumes "preCasava valid name = (m, None)" and "f = FieldsFunc name preCasavaSep"
  shows "6 \<le> length f \<and>
         (if snd (Atoi (f ! 5)) = None
          then Multiplex m = \<lparr>Index = word_of_int (fst (Atoi (f ! 5))), Tag = []\<rparr>
          else Multiplex m = \<lparr>Index = - 1, Tag = f ! 5\<rparr>)"
proof -
  have len: "6 \<le> length f"
    using assms by (auto simp: preCasava_def Let_def split: if_splits)
  have ne: "f ! 5 \<noteq> []"
    using len FieldsFunc_nth_nonempty [of 5 name preCasavaSep] unfolding assms(2) by simp
  show ?thesis
    using assms(1) len
    by (auto simp: preCasava_def recovered_def Let_def Metadata_zero_def
        assms(2) [symmetric] atob_nonempty [OF ne]
        split: if_splits sum.splits option.splits)
qed

lemma casava_Multiplex:
  assumes "casava valid name desc = (m, None)" and "df = FieldsFunc desc casavaSep"
  shows "if desc = [] then Multiplex m = \<lparr>Index = - 1, Tag = []\<rparr>
         else length df = 4 \<and> Multiplex m = \<lparr>Index = - 1, Tag = df ! 3\<rparr>"
  using assms(1)
  by (auto simp: casava_def recovered_def Let_def Metadata_zero_def assms(2) [symmetric]
      split: if_splits sum.splits)

text \<open>
  On an ASCII tag \<open>tagOk\<close> checks every character. (Beyond ASCII it checks the low
  byte of each rune.)
\<close>

lemma runes_ascii: "\<forall>c\<in>set s. of_char c < (128::nat) \<Longrightarrow> runes s = map of_char s"
  by (induction s) (simp_all add: Let_def)

lemma tagOk_runes_all: "tagOk_runes valid rs = (\<forall>r\<in>set rs. valid (Letter r))"
  by (induction rs) simp_all

lemma tagOk_ascii:
  "\<forall>c\<in>set s. of_char c < (128::nat) \<Longrightarrow> tagOk valid s = (\<forall>c\<in>set s. valid (Letter (of_char c)))"
  by (simp add: tagOk_def runes_ascii tagOk_runes_all)

text \<open>The default table is the \<^verbatim>\<open>switch\<close> at every index; the fast-path loops are maps.\<close>

lemma fold_fun_upd_of_nat:
  fixes v :: "8 word"
  shows "\<forall>i\<in>set ns. i < 256 \<Longrightarrow>
    fold (\<lambda>i cs. cs(of_nat i := g i)) ns cs0 v = (if unat v \<in> set ns then g (unat v) else cs0 v)"
proof (induction ns arbitrary: cs0)
  case Nil
  then show ?case by simp
next
  case (Cons n ns)
  have n: "n < 256" using Cons.prems by simp
  have eq: "(of_nat n = v) = (n = unat v)"
    using n by (auto simp: of_nat_inverse)
  show ?case using Cons.IH [of "cs0(of_nat n := g n)"] Cons.prems eq by auto
qed

lemma defaultCompression_switch: "defaultCompression v = switch_q (unat v)"
proof -
  have b: "unat v < 256" using unsigned_less [of v, where ?'a = nat] by simp
  have r: "\<forall>i\<in>set [2..<256]. i < (256::nat)" by (simp only: set_upt) (simp only: atLeastLessThan_iff Ball_def, blast)
  have m: "(unat v \<in> set [2..<256]) = (2 \<le> unat v)"
    using b by (simp only: set_upt atLeastLessThan_iff) simp
  have "defaultCompression v = (if unat v \<in> set [2..<256] then switch_q (unat v) else 0)"
    unfolding defaultCompression_def by (rule fold_fun_upd_of_nat [OF r])
  also have "\<dots> = switch_q (unat v)" unfolding m by (simp add: switch_q_def)
  finally show ?thesis .
qed

lemma fold_update_take:
  "n \<le> length d \<Longrightarrow> fold (\<lambda>i d. d[i := g (d ! i)]) [0..<n] d = map g (take n d) @ drop n d"
proof (induction n)
  case 0
  then show ?case by simp
next
  case (Suc n)
  then have n: "n < length d" by simp
  have "fold (\<lambda>i d. d[i := g (d ! i)]) [0..<Suc n] d = (map g (take n d) @ drop n d)[n := g ((map g (take n d) @ drop n d) ! n)]"
    using Suc by simp
  also have "\<dots> = map g (take n d) @ (g (d ! n) # drop (Suc n) d)"
    using n by (simp add: nth_append list_update_append Cons_nth_drop_Suc [symmetric])
  also have "\<dots> = map g (take (Suc n) d) @ drop (Suc n) d"
    using n by (simp add: take_Suc_conv_app_nth)
  finally show ?case .
qed

lemma compress_Qphreds_map: "compress_Qphreds c d = map c d"
  by (simp add: compress_Qphreds_def fold_update_take)



subsection \<open>Older-convention results\<close>

text \<open>
  What an accepted older-convention identifier (its name contains \<open>#\<close>) carries in the
  fields its format does not have: \<open>Run = -1\<close>, \<open>BadRead = false\<close>, and
  \<open>ControlBits\<close> at its zero value, since \<open>preCasava\<close> never assigns it.
\<close>

lemma Parse_preCasava_fields:
  assumes "CHR ''#'' \<in> set (Name r)" and "Parse valid r = (m, None)"
  shows "Run m = - 1 \<and> ControlBits m = 0 \<and> \<not> BadRead m"
  using assms preCasava_ok [of valid "Name r" m] by (simp add: Parse_def)

lemma Parse_preCasava_fields_witness:
  "CHR ''#'' \<in> set ''HWUSI-EAS100R:6:73:941:1973#0/1''
   \<and> snd (Parse DNA_IsValid \<lparr>Name = ''HWUSI-EAS100R:6:73:941:1973#0/1'', Description = ''''\<rparr>) = None
   \<and> Run (fst (Parse DNA_IsValid \<lparr>Name = ''HWUSI-EAS100R:6:73:941:1973#0/1'', Description = ''''\<rparr>)) = - 1
   \<and> ControlBits (fst (Parse DNA_IsValid \<lparr>Name = ''HWUSI-EAS100R:6:73:941:1973#0/1'', Description = ''''\<rparr>)) = 0
   \<and> \<not> BadRead (fst (Parse DNA_IsValid \<lparr>Name = ''HWUSI-EAS100R:6:73:941:1973#0/1'', Description = ''''\<rparr>))"
proof -
  let ?r = "\<lparr>Name = ''HWUSI-EAS100R:6:73:941:1973#0/1'', Description = ''''\<rparr>"
  have h1: "CHR ''#'' \<in> set (Name ?r)" by simp
  have h2: "snd (Parse DNA_IsValid ?r) = None" by code_simp
  have h3: "Parse DNA_IsValid ?r = (fst (Parse DNA_IsValid ?r), None)"
    using h2 by (simp add: prod_eq_iff)
  show ?thesis using Parse_preCasava_fields [OF h1 h3] h1 h2 by simp
qed

text \<open>
  Claim C1: every older-convention identifier that \<open>Parse\<close> accepts should come
  back with \<open>Run = -1\<close>, \<open>ControlBits = -1\<close> and \<open>BadRead = false\<close>; the
  comment of the field says \<^verbatim>\<open>-1 if not valid\<close>, and \<open>casava\<close> starts from
  \<open>ControlBits = -1\<close>. The code differs on \<open>ControlBits\<close>: the first identifier
  of the package's test table is accepted with \<open>Run = -1\<close> and \<open>ControlBits = 0\<close>.
\<close>

theorem Parse_preCasava_ControlBits_zero:
  "CHR ''#'' \<in> set ''HWUSI-EAS100R:6:73:941:1973#0/1''
   \<and> snd (Parse DNA_IsValid \<lparr>Name = ''HWUSI-EAS100R:6:73:941:1973#0/1'', Description = ''''\<rparr>) = None
   \<and> Run (fst (Parse DNA_IsValid \<lparr>Name = ''HWUSI-EAS100R:6:73:941:1973#0/1'', Description = ''''\<rparr>)) = - 1
   \<and> ControlBits (fst (Parse DNA_IsValid \<lparr>Name = ''HWUSI-EAS100R:6:73:941:1973#0/1'', Description = ''''\<rparr>)) = 0"
  by code_simp




subsection \<open>Failures\<close>

text \<open>
  Claim C3, as the code has it: whenever \<open>Parse\<close> returns a non-nil error, the
  returned Metadata has \<open>Type = Undefined\<close>; every other field is at its zero value
  when the error is \<open>ErrBadIdentifer\<close> or \<open>ErrBadTag\<close>. (After a recovered panic
  only the Type is reset: the fields assigned before the panic keep their values.)
\<close>

theorem Parse_error_Metadata:
  assumes "snd (Parse valid r) \<noteq> None"
  shows "Type (fst (Parse valid r)) = Undefined \<and>
         (snd (Parse valid r) = Some ErrBadIdentifer \<or> snd (Parse valid r) = Some ErrBadTag
            \<longrightarrow> fst (Parse valid r) = Metadata_zero)"
proof (cases "CHR ''#'' \<in> set (Name r)")
  case True
  then have "Parse valid r = preCasava valid (Name r)" by (simp add: Parse_def)
  then show ?thesis using assms preCasava_error [of valid "Name r"] by simp
next
  case False
  then have "Parse valid r = casava valid (Name r) (Description r)" by (simp add: Parse_def)
  then show ?thesis using assms casava_error [of valid "Name r" "Description r"] by simp
qed

theorem Parse_error_Metadata_witness:
  "snd (Parse DNA_IsValid \<lparr>Name = ''A:1#2'', Description = ''''\<rparr>) = Some ErrBadIdentifer
   \<and> Type (fst (Parse DNA_IsValid \<lparr>Name = ''A:1#2'', Description = ''''\<rparr>)) = Undefined
   \<and> fst (Parse DNA_IsValid \<lparr>Name = ''A:1#2'', Description = ''''\<rparr>) = Metadata_zero"
proof -
  let ?r = "\<lparr>Name = ''A:1#2'', Description = ''''\<rparr>"
  have h1: "snd (Parse DNA_IsValid ?r) = Some ErrBadIdentifer" by code_simp
  then have h2: "snd (Parse DNA_IsValid ?r) \<noteq> None" by simp
  show ?thesis using Parse_error_Metadata [OF h2] h1 by blast
qed

text \<open>
  Claim C3 as written asks for every other field at zero: with a malformed mate field the
  error is non-nil and the instrument, run and tile parsed before it are still there.
\<close>

theorem Parse_error_keeps_parsed_fields:
  "snd (Parse DNA_IsValid \<lparr>Name = ''A:1:2:3:4#0/x'', Description = ''''\<rparr>)
     = Some (NumError ''Atoi'' ''x'' ErrSyntax)
   \<and> Instrument (fst (Parse DNA_IsValid \<lparr>Name = ''A:1:2:3:4#0/x'', Description = ''''\<rparr>)) = ''A''
   \<and> Run (fst (Parse DNA_IsValid \<lparr>Name = ''A:1:2:3:4#0/x'', Description = ''''\<rparr>)) = - 1
   \<and> Tile (fst (Parse DNA_IsValid \<lparr>Name = ''A:1:2:3:4#0/x'', Description = ''''\<rparr>)) = 2"
  by code_simp

text \<open>
  Claim C6: \<open>Parse\<close> fails with \<open>ErrBadIdentifer\<close> (and the zero Metadata) when an
  older-convention name splits on \<open>:\<close>, \<open>#\<close>, \<open>/\<close> into fewer than 6 fields,
  when a newer-convention name splits on \<open>:\<close> into other than 7 fields, and when a
  newer-convention description is non-empty and does not split into exactly 4 fields.
\<close>

theorem Parse_field_counts:
  assumes "(CHR ''#'' \<in> set (Name r) \<and> length (FieldsFunc (Name r) preCasavaSep) < 6)
         \<or> (CHR ''#'' \<notin> set (Name r) \<and> length (FieldsFunc (Name r) casavaSep) \<noteq> 7)
         \<or> (CHR ''#'' \<notin> set (Name r) \<and> Description r \<noteq> []
              \<and> length (FieldsFunc (Description r) casavaSep) \<noteq> 4)"
  shows "Parse valid r = (Metadata_zero, Some ErrBadIdentifer)"
  using assms by (auto simp: Parse_def preCasava_def casava_def Let_def)

theorem Parse_field_counts_witness:
  "Parse DNA_IsValid \<lparr>Name = ''A:1#2'', Description = ''''\<rparr> = (Metadata_zero, Some ErrBadIdentifer)
   \<and> Parse DNA_IsValid \<lparr>Name = ''A:1:2'', Description = ''''\<rparr> = (Metadata_zero, Some ErrBadIdentifer)
   \<and> Parse DNA_IsValid \<lparr>Name = ''A:1:B:2:3:4:5'', Description = ''1:Y''\<rparr>
        = (Metadata_zero, Some ErrBadIdentifer)"
proof -
  let ?r1 = "\<lparr>Name = ''A:1#2'', Description = ''''\<rparr>"
  let ?r2 = "\<lparr>Name = ''A:1:2'', Description = ''''\<rparr>"
  let ?r3 = "\<lparr>Name = ''A:1:B:2:3:4:5'', Description = ''1:Y''\<rparr>"
  have h1: "CHR ''#'' \<in> set (Name ?r1) \<and> length (FieldsFunc (Name ?r1) preCasavaSep) < 6"
    by code_simp
  have h2: "CHR ''#'' \<notin> set (Name ?r2) \<and> length (FieldsFunc (Name ?r2) casavaSep) \<noteq> 7"
    by code_simp
  have h3: "CHR ''#'' \<notin> set (Name ?r3) \<and> Description ?r3 \<noteq> []
              \<and> length (FieldsFunc (Description ?r3) casavaSep) \<noteq> 4"
    by code_simp
  show ?thesis
    using Parse_field_counts [of ?r1 DNA_IsValid] Parse_field_counts [of ?r2 DNA_IsValid]
      Parse_field_counts [of ?r3 DNA_IsValid] h1 h2 h3
    by blast
qed

text \<open>
  Claim C8: for a newer-convention identifier whose name has 7 fields and whose
  description has 4, a tag (field 4 of the description) that fails the DNA-alphabet check
  makes \<open>Parse\<close> return \<open>ErrBadTag\<close> whatever the numeric fields are: the tag is
  checked before any of them is parsed. The witness has every numeric field malformed.
\<close>

theorem Parse_casava_tag_first:
  assumes "CHR ''#'' \<notin> set (Name r)"
    and "length (FieldsFunc (Name r) casavaSep) = 7"
    and "length (FieldsFunc (Description r) casavaSep) = 4"
    and "\<not> tagOk valid (FieldsFunc (Description r) casavaSep ! 3)"
  shows "Parse valid r = (Metadata_zero, Some ErrBadTag)"
  using assms by (simp add: Parse_def casava_def Let_def)

theorem Parse_casava_tag_first_witness:
  "snd (Atoi ''x'') \<noteq> None
   \<and> FieldsFunc ''A:x:B:y:z:w:v'' casavaSep ! 1 = ''x''
   \<and> Parse DNA_IsValid \<lparr>Name = ''A:x:B:y:z:w:v'', Description = ''q:N:r:ACZT''\<rparr>
       = (Metadata_zero, Some ErrBadTag)"
proof -
  let ?r = "\<lparr>Name = ''A:x:B:y:z:w:v'', Description = ''q:N:r:ACZT''\<rparr>"
  have h1: "CHR ''#'' \<notin> set (Name ?r)" by simp
  have h2: "length (FieldsFunc (Name ?r) casavaSep) = 7" by code_simp
  have h3: "length (FieldsFunc (Description ?r) casavaSep) = 4" by code_simp
  have h4: "\<not> tagOk DNA_IsValid (FieldsFunc (Description ?r) casavaSep ! 3)" by code_simp
  have h5: "snd (Atoi ''x'') \<noteq> None" by code_simp
  have h6: "FieldsFunc ''A:x:B:y:z:w:v'' casavaSep ! 1 = ''x''" by code_simp
  show ?thesis using Parse_casava_tag_first [OF h1 h2 h3 h4] h5 h6 by simp
qed

subsection \<open>Accepted identifiers\<close>

text \<open>
  Claim C5, as the code has it: for every Metadata returned by a successful \<open>Parse\<close>,
  \<open>Multiplex.Index >= 0\<close> and a non-empty \<open>Multiplex.Tag\<close> never hold together.
  Newer convention: Index is -1, and the Tag is empty exactly when the description is.
  Older convention, where \<open>f ! 5\<close> is the multiplex field: when it is no integer the
  Tag is the field (non-empty) and Index is -1; when it is an integer the Tag is empty and
  Index is the value converted to \<^verbatim>\<open>int8\<close>, which is non-negative exactly when the
  value modulo 256 is below 128 (so a numeric index 0 gives Index = 0, Tag empty).
\<close>

theorem Parse_Multiplex:
  assumes "Parse valid r = (m, None)"
    and "f = FieldsFunc (Name r) preCasavaSep"
  shows "\<not> (0 \<le> sint (Index (Multiplex m)) \<and> Tag (Multiplex m) \<noteq> [])
       \<and> (CHR ''#'' \<notin> set (Name r) \<and> Description r = []
            \<longrightarrow> Index (Multiplex m) = - 1 \<and> Tag (Multiplex m) = [])
       \<and> (CHR ''#'' \<notin> set (Name r) \<and> Description r \<noteq> []
            \<longrightarrow> Index (Multiplex m) = - 1 \<and> Tag (Multiplex m) \<noteq> [])
       \<and> (CHR ''#'' \<in> set (Name r) \<and> snd (Atoi (f ! 5)) \<noteq> None
            \<longrightarrow> Index (Multiplex m) = - 1 \<and> Tag (Multiplex m) = f ! 5 \<and> f ! 5 \<noteq> [])
       \<and> (CHR ''#'' \<in> set (Name r) \<and> snd (Atoi (f ! 5)) = None
            \<longrightarrow> Index (Multiplex m) = word_of_int (fst (Atoi (f ! 5))) \<and> Tag (Multiplex m) = []
              \<and> (0 \<le> sint (Index (Multiplex m))) = (fst (Atoi (f ! 5)) mod 256 < 128))"
proof (cases "CHR ''#'' \<in> set (Name r)")
  case True
  then have p: "preCasava valid (Name r) = (m, None)" using assms(1) by (simp add: Parse_def)
  have len: "6 \<le> length f" using preCasava_Multiplex [OF p assms(2)] by simp
  have ne: "f ! 5 \<noteq> []"
    using len FieldsFunc_nth_nonempty [of 5 "Name r" preCasavaSep] unfolding assms(2) by simp
  show ?thesis
    using True preCasava_Multiplex [OF p assms(2)] ne
    by (auto simp: sint_int8_nonneg split: if_splits)
next
  case False
  then have c: "casava valid (Name r) (Description r) = (m, None)"
    using assms(1) by (simp add: Parse_def)
  have ne: "Description r \<noteq> [] \<Longrightarrow> FieldsFunc (Description r) casavaSep ! 3 \<noteq> []"
    using casava_Multiplex [OF c refl] FieldsFunc_nth_nonempty [of 3 "Description r" casavaSep]
    by simp
  show ?thesis
    using False casava_Multiplex [OF c refl] ne
    by (auto split: if_splits)
qed

theorem Parse_Multiplex_witness:
  "snd (Parse DNA_IsValid \<lparr>Name = ''HWUSI-EAS100R:6:73:941:1973#0/1'', Description = ''''\<rparr>) = None
   \<and> FieldsFunc ''HWUSI-EAS100R:6:73:941:1973#0/1'' preCasavaSep ! 5 = ''0''
   \<and> Index (Multiplex (fst (Parse DNA_IsValid
        \<lparr>Name = ''HWUSI-EAS100R:6:73:941:1973#0/1'', Description = ''''\<rparr>))) = 0
   \<and> Tag (Multiplex (fst (Parse DNA_IsValid
        \<lparr>Name = ''HWUSI-EAS100R:6:73:941:1973#0/1'', Description = ''''\<rparr>))) = []"
proof -
  let ?r = "\<lparr>Name = ''HWUSI-EAS100R:6:73:941:1973#0/1'', Description = ''''\<rparr>"
  have h1: "snd (Parse DNA_IsValid ?r) = None" by code_simp
  have h2: "Parse DNA_IsValid ?r = (fst (Parse DNA_IsValid ?r), None)"
    using h1 by (simp add: prod_eq_iff)
  have h3: "CHR ''#'' \<in> set (Name ?r)" by simp
  have h4: "FieldsFunc (Name ?r) preCasavaSep ! 5 = ''0''" by code_simp
  have h5: "Atoi ''0'' = (0, None)" by code_simp
  show ?thesis using Parse_Multiplex [OF h2 refl] h1 h3 h4 h5 by simp
qed

text \<open>
  Claim C5 as written asks for exactly one of the two whenever multiplexing information is
  present: the older-convention index 128 is accepted with Index = -128 and an empty Tag.
\<close>

theorem Parse_preCasava_negative_Index:
  "snd (Parse DNA_IsValid \<lparr>Name = ''A:1:2:3:4#128'', Description = ''''\<rparr>) = None
   \<and> FieldsFunc ''A:1:2:3:4#128'' preCasavaSep ! 5 = ''128''
   \<and> sint (Index (Multiplex (fst (Parse DNA_IsValid \<lparr>Name = ''A:1:2:3:4#128'', Description = ''''\<rparr>)))) = - 128
   \<and> Tag (Multiplex (fst (Parse DNA_IsValid \<lparr>Name = ''A:1:2:3:4#128'', Description = ''''\<rparr>))) = []"
  by code_simp

text \<open>
  Claim C7, as the code has it: for every newer-convention identifier accepted by
  \<open>Parse\<close>, with \<open>df\<close> the fields of the description: if the description is empty,
  Mate = 0, BadRead = false, ControlBits = -1 and Multiplex = {Index: -1, Tag: ""};
  otherwise there are 4 fields, Mate is the integer value of field 1 converted to
  \<^verbatim>\<open>int8\<close> (the value itself when it lies in -128..127), BadRead is true if and only
  if field 2 is \<open>Y\<close> or \<open>y\<close>, ControlBits is the integer value of field 3, and
  Multiplex is {Index: -1, Tag: field 4}.
\<close>

theorem Parse_casava_description_fields:
  assumes "CHR ''#'' \<notin> set (Name r)" and "Parse valid r = (m, None)"
    and "df = FieldsFunc (Description r) casavaSep"
  shows "if Description r = []
         then Mate m = 0 \<and> \<not> BadRead m \<and> ControlBits m = - 1
            \<and> Multiplex m = \<lparr>Index = - 1, Tag = []\<rparr>
         else length df = 4
            \<and> snd (Atoi (df ! 0)) = None \<and> Mate m = word_of_int (fst (Atoi (df ! 0)))
            \<and> (- 128 \<le> fst (Atoi (df ! 0)) \<and> fst (Atoi (df ! 0)) \<le> 127
                 \<longrightarrow> sint (Mate m) = fst (Atoi (df ! 0)))
            \<and> BadRead m = (df ! 1 = ''Y'' \<or> df ! 1 = ''y'')
            \<and> snd (Atoi (df ! 2)) = None \<and> ControlBits m = fst (Atoi (df ! 2))
            \<and> Multiplex m = \<lparr>Index = - 1, Tag = df ! 3\<rparr>"
proof (cases "Description r = []")
  case True
  then show ?thesis
    using assms(1,2)
    by (auto simp: Parse_def casava_def recovered_def Let_def Metadata_zero_def
        split: if_splits sum.splits)
next
  case False
  have c: "casava valid (Name r) (Description r) = (m, None)"
    using assms(1,2) by (simp add: Parse_def)
  have len: "length df = 4"
    using c False assms(3) by (auto simp: casava_def Let_def split: if_splits)
  have n0: "df ! 0 \<noteq> []" and n2: "df ! 2 \<noteq> []"
    using len FieldsFunc_nth_nonempty [of _ "Description r" casavaSep]
    unfolding assms(3) by simp_all
  show ?thesis
    using c False len
    by (auto simp: casava_def recovered_def Let_def Metadata_zero_def sint_int8
        assms(3) [symmetric] mustAtoi_nonempty [OF n0] mustAtoi_nonempty [OF n2]
        split: if_splits sum.splits option.splits)
qed

theorem Parse_casava_description_fields_witness:
  "CHR ''#'' \<notin> set ''EAS139:136:FC706VJ:2:2104:15343:197393''
   \<and> snd (Parse DNA_IsValid
        \<lparr>Name = ''EAS139:136:FC706VJ:2:2104:15343:197393'', Description = ''1:Y:18:ATCACG''\<rparr>) = None
   \<and> Mate (fst (Parse DNA_IsValid
        \<lparr>Name = ''EAS139:136:FC706VJ:2:2104:15343:197393'', Description = ''1:Y:18:ATCACG''\<rparr>)) = 1
   \<and> BadRead (fst (Parse DNA_IsValid
        \<lparr>Name = ''EAS139:136:FC706VJ:2:2104:15343:197393'', Description = ''1:Y:18:ATCACG''\<rparr>))
   \<and> ControlBits (fst (Parse DNA_IsValid
        \<lparr>Name = ''EAS139:136:FC706VJ:2:2104:15343:197393'', Description = ''1:Y:18:ATCACG''\<rparr>)) = 18
   \<and> Multiplex (fst (Parse DNA_IsValid
        \<lparr>Name = ''EAS139:136:FC706VJ:2:2104:15343:197393'', Description = ''1:Y:18:ATCACG''\<rparr>))
       = \<lparr>Index = - 1, Tag = ''ATCACG''\<rparr>"
proof -
  let ?r = "\<lparr>Name = ''EAS139:136:FC706VJ:2:2104:15343:197393'', Description = ''1:Y:18:ATCACG''\<rparr>"
  have h1: "CHR ''#'' \<notin> set (Name ?r)" by simp
  have h2: "snd (Parse DNA_IsValid ?r) = None" by code_simp
  have h3: "Parse DNA_IsValid ?r = (fst (Parse DNA_IsValid ?r), None)"
    using h2 by (simp add: prod_eq_iff)
  have h4: "FieldsFunc (Description ?r) casavaSep = [''1'', ''Y'', ''18'', ''ATCACG'']" by code_simp
  have h5: "Atoi ''1'' = (1, None)" by code_simp
  have h6: "Atoi ''18'' = (18, None)" by code_simp
  show ?thesis
    using Parse_casava_description_fields [OF h1 h3 refl] h1 h2 h4 h5 h6 by simp
qed

text \<open>
  Claim C7 as written makes Mate the integer value of field 1: the description
  \<open>300:N:0:ACGT\<close> is accepted, field 1 has the value 300, and Mate is 44.
\<close>

theorem Parse_casava_Mate_truncated:
  "snd (Parse DNA_IsValid \<lparr>Name = ''A:1:B:2:3:4:5'', Description = ''300:N:0:ACGT''\<rparr>) = None
   \<and> Atoi (FieldsFunc ''300:N:0:ACGT'' casavaSep ! 0) = (300, None)
   \<and> sint (Mate (fst (Parse DNA_IsValid \<lparr>Name = ''A:1:B:2:3:4:5'', Description = ''300:N:0:ACGT''\<rparr>))) = 44"
  by code_simp

subsection \<open>The compressor\<close>

text \<open>
  Claim C4: the default table maps every quality \<open>v\<close> of 0..255 to its bucket (0..1 to
  0, 2..9 to 6, 10..19 to 15, 20..24 to 22, 25..29 to 27, 30..34 to 33, 35..39 to 37,
  40..255 to 40), and \<open>BinCompress\<close> with a nil scheme on a raw-quality container
  holding the single value \<open>v\<close> returns no error and leaves that bucket value in it.
\<close>

theorem DefaultCompression_table:
  "DefaultCompression v =
     (if unat v \<le> 1 then 0 else if unat v \<le> 9 then 6 else if unat v \<le> 19 then 15
      else if unat v \<le> 24 then 22 else if unat v \<le> 29 then 27 else if unat v \<le> 34 then 33
      else if unat v \<le> 39 then 37 else 40)
   \<and> BinCompress M Ephred ProbE (Slicer_Qphreds [v]) None
       = Some (Slicer_Qphreds [DefaultCompression v], None)"
  by (simp add: DefaultCompression_def defaultCompression_switch switch_q_def BinCompress_def
      compress_Qphreds_map)

theorem DefaultCompression_table_witness:
  "DefaultCompression 41 = 40
   \<and> BinCompress no_methods no_Ephred no_ProbE (Slicer_Qphreds [41]) None
       = Some (Slicer_Qphreds [40], None)"
  using DefaultCompression_table [of 41 no_methods no_Ephred no_ProbE] by simp




end
